theory Spec2Isabelle
  imports Main "HOL-Library.Word"
begin

section \<open>The mission monitor of restraining-bolt\<close>

text \<open>
  A shallow embedding of \<^verbatim>\<open>src/MissionMonitor.cpp\<close>. Every member function of
  \<^verbatim>\<open>MissionMonitor\<close> becomes a function from the object's fields to the updated fields
  and the list of calls it makes on its collaborators (the servo relay, the audio player
  and the mode-change command), in the order of the calls. The clock
  \<^verbatim>\<open>getMissionTime()\<close> is not defined in the file: its reading is an argument
  \<open>now\<close> of every function that calls it. \<^verbatim>\<open>Log.trace\<close> only writes to the log
  and is left out.
\<close>

subsection \<open>Constants of the MAVLink headers\<close>

text \<open>
  \<^verbatim>\<open>ROVER_MODE\<close>, \<^verbatim>\<open>MAV_TYPE\<close> and \<^verbatim>\<open>GPS_FIX_TYPE\<close> come from the MAVLink
  ardupilotmega dialect, a library. The monitor stores the heartbeat's 32-bit
  \<^verbatim>\<open>custom_mode\<close> under a cast and compares it as an integer, so a mode is its number.
\<close>

type_synonym ROVER_MODE = "32 word"

definition ROVER_MODE_MANUAL :: ROVER_MODE where "ROVER_MODE_MANUAL = 0"
definition ROVER_MODE_ACRO :: ROVER_MODE where "ROVER_MODE_ACRO = 1"
definition ROVER_MODE_STEERING :: ROVER_MODE where "ROVER_MODE_STEERING = 3"
definition ROVER_MODE_HOLD :: ROVER_MODE where "ROVER_MODE_HOLD = 4"
definition ROVER_MODE_LOITER :: ROVER_MODE where "ROVER_MODE_LOITER = 5"
definition ROVER_MODE_AUTO :: ROVER_MODE where "ROVER_MODE_AUTO = 10"
definition ROVER_MODE_RTL :: ROVER_MODE where "ROVER_MODE_RTL = 11"
definition ROVER_MODE_SMART_RTL :: ROVER_MODE where "ROVER_MODE_SMART_RTL = 12"
definition ROVER_MODE_GUIDED :: ROVER_MODE where "ROVER_MODE_GUIDED = 15"
definition ROVER_MODE_INITIALIZING :: ROVER_MODE where "ROVER_MODE_INITIALIZING = 16"
definition ROVER_MODE_ENUM_END :: ROVER_MODE where "ROVER_MODE_ENUM_END = 17"

definition MAV_TYPE_GROUND_ROVER :: "8 word" where "MAV_TYPE_GROUND_ROVER = 10"

subsection \<open>Collaborators\<close>

text \<open>
  The sound identifiers of \<^verbatim>\<open>AudioPlayer.h\<close>, which is not among the sources: one
  constructor for each name the monitor uses, the names taken to stand for different sounds.
\<close>

datatype sound =
    MAVLINK_GOOD_SOUND | MAVLINK_BAD_SOUND | READY_SOUND | GPS_SIGNAL_LOW_SOUND
  | WRONG_DIRECTION_SOUND | EMERGENCY_STOP_SOUND
  | MANUAL_MODE_SOUND | ACRO_MODE_SOUND | STEERING_MODE_SOUND | HOLD_MODE_SOUND
  | LOITER_MODE_SOUND | AUTO_MODE_SOUND | RTL_MODE_SOUND | SRTL_MODE_SOUND
  | GUIDED_MODE_SOUND

text \<open>A call on a collaborator: the relay driver, the audio player, the mode command.\<close>

datatype effect =
    powerRelayOn | powerRelayOff | alarmRelayOn | alarmRelayOff
  | audioPlay sound
  | sendModeChange ROVER_MODE

subsection \<open>The fields of the monitor\<close>

text \<open>
  The header declares \<^verbatim>\<open>uint16_t _lastDistanceToWaypoint\<close>,
  \<^verbatim>\<open>unsigned long _lastProgressMadeTimeMilliseconds\<close> (32 bits on the 32-bit Arduino
  targets) and \<^verbatim>\<open>uint16_t _currentWaypointSequenceId\<close>. The declaration of
  \<^verbatim>\<open>_wrongDirectionCount\<close> is not in the sources: its type is the parameter
  \<open>'c\<close> of the record, and the functions take it to be a word of any width \<open>'w\<close>,
  so what is proved holds for every width. The 8-bit fix types and the
  32-bit times have the types of the values assigned to them.
\<close>

record 'c MissionMonitor =
  secondsBeforeEmergencyStop :: "32 word"
  lowestGpsFixTpye :: "8 word"
  roverMode :: ROVER_MODE
  mavModeFlag :: "8 word"
  lastHeartbeatTimeMilliseconds :: "32 word"
  firstHeartbeat :: bool
  lastDistanceToWaypoint :: "16 word"
  lastProgressMadeTimeMilliseconds :: "32 word"
  currentWaypointSequenceId :: "16 word"
  wrongDirection :: bool
  wrongDirectionCount :: 'c
  gps1FixType :: "8 word"
  gps2FixType :: "8 word"
  firstTick :: bool
  isFailed :: bool

text \<open>The fields of \<^verbatim>\<open>mavlink_heartbeat_t\<close> that the monitor reads.\<close>

record mavlink_heartbeat_t =
  custom_mode :: "32 word"
  mav_type :: "8 word"
  base_mode :: "8 word"

text \<open>
  Modelled from the spec: the initial values of the fields that the header under
  \<^verbatim>\<open>src/\<close> does not declare (the four flags are false, the count is 0, both fix types
  are "no fix"). The last heartbeat time is unset: it is the argument \<open>hb0\<close>; the mode
  flag, which the monitor never reads, starts at 0. The rest is the code: the constructor stores its two settings, and the
  header's initialisers give the mode \<^verbatim>\<open>ROVER_MODE_INITIALIZING\<close>, the distance -1, the
  progress time -1 and the waypoint id 0.
\<close>

definition MissionMonitor_init :: "32 word \<Rightarrow> 8 word \<Rightarrow> 32 word \<Rightarrow> 'w::len word MissionMonitor" where
  "MissionMonitor_init secs lowest hb0 =
     \<lparr> secondsBeforeEmergencyStop = secs,
       lowestGpsFixTpye = lowest,
       roverMode = ROVER_MODE_INITIALIZING,
       mavModeFlag = 0,
       lastHeartbeatTimeMilliseconds = hb0,
       firstHeartbeat = False,
       lastDistanceToWaypoint = - 1,
       lastProgressMadeTimeMilliseconds = - 1,
       currentWaypointSequenceId = 0,
       wrongDirection = False,
       wrongDirectionCount = 0,
       gps1FixType = 0,
       gps2FixType = 0,
       firstTick = False,
       isFailed = False \<rparr>"

subsection \<open>The member functions\<close>

text \<open>\<^verbatim>\<open>MissionMonitor::play\<close>: the switch over the new mode; two cases play nothing.\<close>

definition play :: "ROVER_MODE \<Rightarrow> effect list" where
  "play m =
     (if m = ROVER_MODE_MANUAL then [audioPlay MANUAL_MODE_SOUND]
      else if m = ROVER_MODE_ACRO then [audioPlay ACRO_MODE_SOUND]
      else if m = ROVER_MODE_STEERING then [audioPlay STEERING_MODE_SOUND]
      else if m = ROVER_MODE_HOLD then [audioPlay HOLD_MODE_SOUND]
      else if m = ROVER_MODE_LOITER then [audioPlay LOITER_MODE_SOUND]
      else if m = ROVER_MODE_AUTO then [audioPlay AUTO_MODE_SOUND]
      else if m = ROVER_MODE_RTL then [audioPlay RTL_MODE_SOUND]
      else if m = ROVER_MODE_SMART_RTL then [audioPlay SRTL_MODE_SOUND]
      else if m = ROVER_MODE_GUIDED then [audioPlay GUIDED_MODE_SOUND]
      else if m = ROVER_MODE_INITIALIZING then []
      else if m = ROVER_MODE_ENUM_END then []
      else [])"

text \<open>\<^verbatim>\<open>MissionMonitor::start\<close>, the reset routine.\<close>

definition start :: "'w::len word MissionMonitor \<Rightarrow> 'w word MissionMonitor \<times> effect list" where
  "start s =
     (s\<lparr> lastProgressMadeTimeMilliseconds := 0,
         isFailed := False,
         wrongDirection := False,
         wrongDirectionCount := 0 \<rparr>,
      [powerRelayOn, alarmRelayOff])"

text \<open>\<^verbatim>\<open>MissionMonitor::failMission\<close>.\<close>

definition failMission :: "'w::len word MissionMonitor \<Rightarrow> 'w word MissionMonitor \<times> effect list" where
  "failMission s =
     (s\<lparr> isFailed := True \<rparr>,
      [powerRelayOff, alarmRelayOn, audioPlay EMERGENCY_STOP_SOUND])"

text \<open>\<^verbatim>\<open>MissionMonitor::onHeatbeat\<close>.\<close>

definition onHeatbeat ::
  "32 word \<Rightarrow> mavlink_heartbeat_t \<Rightarrow> 'w::len word MissionMonitor \<Rightarrow> 'w word MissionMonitor \<times> effect list" where
  "onHeatbeat now hb s =
     (let s0 = s\<lparr> lastHeartbeatTimeMilliseconds := now \<rparr>;
          (s1, o1) =
            (if mav_type hb = MAV_TYPE_GROUND_ROVER \<and> custom_mode hb \<noteq> roverMode s0
             then let (s2, o2) = start (s0\<lparr> mavModeFlag := base_mode hb,
                                            roverMode := custom_mode hb \<rparr>)
                  in (s2, play (custom_mode hb) @ o2)
             else (s0, []))
      in if \<not> firstHeartbeat s1
         then (s1\<lparr> firstHeartbeat := True \<rparr>, o1 @ [audioPlay MAVLINK_GOOD_SOUND])
         else (s1, o1))"

text \<open>\<^verbatim>\<open>MissionMonitor::onMissionItemReached\<close>.\<close>

definition onMissionItemReached ::
  "32 word \<Rightarrow> 16 word \<Rightarrow> 'w::len word MissionMonitor \<Rightarrow> 'w word MissionMonitor \<times> effect list" where
  "onMissionItemReached now seq s = (s\<lparr> lastProgressMadeTimeMilliseconds := now \<rparr>, [])"

text \<open>
  The test \<^verbatim>\<open>_lastDistanceToWaypoint == -1\<close> compares a \<^verbatim>\<open>uint16_t\<close> with the
  \<^verbatim>\<open>int\<close> constant -1. Where \<^verbatim>\<open>int\<close> is wider than 16 bits the field is promoted to
  \<^verbatim>\<open>int\<close> and keeps its value between 0 and 65535; where \<^verbatim>\<open>int\<close> has 16 bits both
  sides become \<^verbatim>\<open>unsigned int\<close> and -1 becomes 65535. The width of \<^verbatim>\<open>int\<close> is the
  argument \<open>int_bits\<close>.
\<close>

definition equals_minus_one :: "nat \<Rightarrow> 16 word \<Rightarrow> bool" where
  "equals_minus_one int_bits d =
     (if 16 < int_bits then uint d = - 1 else d = word_of_int (- 1))"

text \<open>\<^verbatim>\<open>MissionMonitor::onNavControllerOutput\<close>; \<open>wp_dist\<close> is the message's field.\<close>

definition onNavControllerOutput ::
  "nat \<Rightarrow> 32 word \<Rightarrow> 16 word \<Rightarrow> 'w::len word MissionMonitor \<Rightarrow> 'w word MissionMonitor \<times> effect list" where
  "onNavControllerOutput int_bits now wp_dist s =
     (let missionTime = now;
          (s1, progressMade) =
            (if equals_minus_one int_bits (lastDistanceToWaypoint s) then (s, True)
             else if lastDistanceToWaypoint s = wp_dist then
               (if \<not> wrongDirection s then (s, True) else (s, False))
             else if lastDistanceToWaypoint s < wp_dist then
               (s\<lparr> wrongDirection := True,
                   wrongDirectionCount := wrongDirectionCount s + 1 \<rparr>, False)
             else (s, True));
          s2 = s1\<lparr> lastDistanceToWaypoint := wp_dist \<rparr>
      in if progressMade
         then (s2\<lparr> lastProgressMadeTimeMilliseconds := missionTime,
                   wrongDirection := False,
                   wrongDirectionCount := 0 \<rparr>, [])
         else (s2, []))"

text \<open>\<^verbatim>\<open>MissionMonitor::onMissionCurrent\<close>.\<close>

definition onMissionCurrent ::
  "32 word \<Rightarrow> 16 word \<Rightarrow> 'w::len word MissionMonitor \<Rightarrow> 'w word MissionMonitor \<times> effect list" where
  "onMissionCurrent now seq s =
     (if currentWaypointSequenceId s \<noteq> seq
      then (s\<lparr> currentWaypointSequenceId := seq,
               lastDistanceToWaypoint := - 1,
               lastProgressMadeTimeMilliseconds := now \<rparr>, [])
      else (s, []))"

text \<open>\<^verbatim>\<open>MissionMonitor::onGPSRawInt\<close> and \<^verbatim>\<open>MissionMonitor::onGPS2Raw\<close>.\<close>

definition onGPSRawInt :: "8 word \<Rightarrow> 'w::len word MissionMonitor \<Rightarrow> 'w word MissionMonitor \<times> effect list" where
  "onGPSRawInt fix_type s = (s\<lparr> gps1FixType := fix_type \<rparr>, [])"

definition onGPS2Raw :: "8 word \<Rightarrow> 'w::len word MissionMonitor \<Rightarrow> 'w word MissionMonitor \<times> effect list" where
  "onGPS2Raw fix_type s = (s\<lparr> gps2FixType := fix_type \<rparr>, [])"

text \<open>
  The five locals that \<^verbatim>\<open>evaluateMission\<close> computes before its first test, each from
  the fields as they are when the function is entered.
\<close>

definition isAutoMode :: "'w::len word MissionMonitor \<Rightarrow> bool" where
  "isAutoMode s = (roverMode s = ROVER_MODE_AUTO)"

definition isHoldMode :: "'w::len word MissionMonitor \<Rightarrow> bool" where
  "isHoldMode s = (roverMode s = ROVER_MODE_HOLD)"

definition mavlinkLost :: "32 word \<Rightarrow> 'w::len word MissionMonitor \<Rightarrow> bool" where
  "mavlinkLost missionTime s =
     (firstHeartbeat s \<and>
      missionTime - lastHeartbeatTimeMilliseconds s \<ge> secondsBeforeEmergencyStop s * 1000)"

definition gpsLost :: "'w::len word MissionMonitor \<Rightarrow> bool" where
  "gpsLost s = (max (gps1FixType s) (gps2FixType s) < lowestGpsFixTpye s)"

definition noProgress :: "32 word \<Rightarrow> 'w::len word MissionMonitor \<Rightarrow> bool" where
  "noProgress missionTime s =
     (lastProgressMadeTimeMilliseconds s \<noteq> 0 \<and>
      missionTime - lastProgressMadeTimeMilliseconds s \<ge> secondsBeforeEmergencyStop s * 1000)"

text \<open>\<^verbatim>\<open>MissionMonitor::evaluateMission\<close>.\<close>

definition evaluateMission ::
  "32 word \<Rightarrow> 'w::len word MissionMonitor \<Rightarrow> 'w word MissionMonitor \<times> effect list" where
  "evaluateMission missionTime s =
     (if \<not> isFailed s then
        let (s1, o1) =
              (if mavlinkLost missionTime s
               then let (f, fo) = failMission s
                    in (f\<lparr> firstHeartbeat := False \<rparr>, fo @ [audioPlay MAVLINK_BAD_SOUND])
               else (s, []));
            (s2, o2) =
              (if isAutoMode s then
                 let (g, go) =
                       (if gpsLost s
                        then (s1, [sendModeChange ROVER_MODE_HOLD,
                                   audioPlay GPS_SIGNAL_LOW_SOUND])
                        else if noProgress missionTime s then failMission s1
                        else (s1, []));
                     (w, wo) =
                       (if wrongDirectionCount g = 2
                        then (g\<lparr> wrongDirectionCount := wrongDirectionCount g + 1 \<rparr>,
                              [audioPlay WRONG_DIRECTION_SOUND])
                        else (g, []))
                 in (w, go @ wo)
               else if isHoldMode s \<and> \<not> gpsLost s
               then (s1, [sendModeChange ROVER_MODE_AUTO])
               else (s1, []))
        in (s2, o1 @ o2)
      else (s, []))"

text \<open>\<^verbatim>\<open>MissionMonitor::tick\<close>.\<close>

definition tick :: "32 word \<Rightarrow> 'w::len word MissionMonitor \<Rightarrow> 'w word MissionMonitor \<times> effect list" where
  "tick now s =
     (let (s1, o1) = evaluateMission now s
      in if \<not> firstTick s1
         then (s1\<lparr> firstTick := True \<rparr>, o1 @ [audioPlay READY_SOUND])
         else (s1, o1))"

subsection \<open>Runs of the monitor\<close>

text \<open>
  The calls the monitor receives from outside: the MAVLink handlers and the poll. A run
  gives each call with the clock reading it sees, and collects the effects in order.
\<close>

datatype event =
    Heatbeat mavlink_heartbeat_t
  | MissionItemReached "16 word"
  | NavControllerOutput "16 word"
  | MissionCurrent "16 word"
  | GPSRawInt "8 word"
  | GPS2Raw "8 word"
  | Tick

fun step ::
  "nat \<Rightarrow> 32 word \<times> event \<Rightarrow> 'w::len word MissionMonitor \<Rightarrow> 'w word MissionMonitor \<times> effect list" where
  "step ib (now, Heatbeat hb) s = onHeatbeat now hb s"
| "step ib (now, MissionItemReached seq) s = onMissionItemReached now seq s"
| "step ib (now, NavControllerOutput d) s = onNavControllerOutput ib now d s"
| "step ib (now, MissionCurrent seq) s = onMissionCurrent now seq s"
| "step ib (now, GPSRawInt f) s = onGPSRawInt f s"
| "step ib (now, GPS2Raw f) s = onGPS2Raw f s"
| "step ib (now, Tick) s = tick now s"

fun run ::
  "nat \<Rightarrow> (32 word \<times> event) list \<Rightarrow> 'w::len word MissionMonitor \<Rightarrow> 'w word MissionMonitor \<times> effect list" where
  "run ib [] s = (s, [])"
| "run ib (e # es) s =
     (let (s1, o1) = step ib e s; (s2, o2) = run ib es s1 in (s2, o1 @ o2))"

subsection \<open>Predicates on events\<close>

text \<open>
  A heartbeat is a mode change for a monitor whose stored mode is \<open>m\<close> when it passes the
  two tests of \<^verbatim>\<open>onHeatbeat\<close>: the vehicle type is the ground rover and the custom
  mode differs from \<open>m\<close>.
\<close>

fun isModeChange :: "ROVER_MODE \<Rightarrow> event \<Rightarrow> bool" where
  "isModeChange m (Heatbeat hb) =
     (mav_type hb = MAV_TYPE_GROUND_ROVER \<and> custom_mode hb \<noteq> m)"
| "isModeChange m e = False"

text \<open>The events whose handlers assign the clock reading to the progress time.\<close>

fun armsProgress :: "event \<Rightarrow> bool" where
  "armsProgress (MissionItemReached seq) = True"
| "armsProgress (NavControllerOutput d) = True"
| "armsProgress (MissionCurrent seq) = True"
| "armsProgress e = False"

text \<open>
  A sequence of events along which the stored wrong-direction count, read as an unsigned
  number, never decreases: no event of it sets the count back to 0 from a higher value,
  and no increment wraps around.
\<close>

fun countNeverDrops ::
  "nat \<Rightarrow> (32 word \<times> event) list \<Rightarrow> 'w::len word MissionMonitor \<Rightarrow> bool" where
  "countNeverDrops ib [] s = True"
| "countNeverDrops ib (e # es) s =
     (unat (wrongDirectionCount s) \<le> unat (wrongDirectionCount (fst (step ib e s))) \<and>
      countNeverDrops ib es (fst (step ib e s)))"

subsection \<open>Example inputs\<close>

text \<open>
  A heartbeat of the rover in a given mode, and a heartbeat of a ground control station
  (\<^verbatim>\<open>MAV_TYPE_GCS\<close> is 6), which reports custom mode 0.
\<close>

definition rover_heartbeat :: "ROVER_MODE \<Rightarrow> mavlink_heartbeat_t" where
  "rover_heartbeat m = \<lparr> custom_mode = m, mav_type = MAV_TYPE_GROUND_ROVER, base_mode = 0 \<rparr>"

definition gcs_heartbeat :: mavlink_heartbeat_t where
  "gcs_heartbeat = \<lparr> custom_mode = 0, mav_type = 6, base_mode = 0 \<rparr>"

text \<open>
  A monitor built with a timeout of one second and 3 (\<^verbatim>\<open>GPS_FIX_TYPE_3D_FIX\<close>) as the
  lowest fix type, with an 8-bit count; the states it reaches on four short runs on a
  target with a 32-bit \<^verbatim>\<open>int\<close>.
\<close>

definition monitor0 :: "8 word MissionMonitor" where
  "monitor0 = MissionMonitor_init 1 3 0"

definition auto_linked :: "8 word MissionMonitor" where
  "auto_linked = fst (run 32 [(0, Heatbeat (rover_heartbeat ROVER_MODE_AUTO))] monitor0)"

definition hold_linked :: "8 word MissionMonitor" where
  "hold_linked =
     fst (run 32 [(0, GPSRawInt 3), (0, Heatbeat (rover_heartbeat ROVER_MODE_HOLD))] monitor0)"

definition link_loss_in_hold :: "(32 word \<times> event) list" where
  "link_loss_in_hold =
     [(0, GPSRawInt 3), (0, Heatbeat (rover_heartbeat ROVER_MODE_HOLD)), (5000, Tick)]"

definition failed_hold :: "8 word MissionMonitor" where
  "failed_hold = fst (run 32 link_loss_in_hold monitor0)"

text \<open>Events that follow, none of them a heartbeat of the rover in another mode.\<close>

definition quiet_events :: "(32 word \<times> event) list" where
  "quiet_events =
     [(6000, Tick), (6001, NavControllerOutput 5),
      (6002, Heatbeat (rover_heartbeat ROVER_MODE_HOLD)), (6003, Tick)]"

definition wrong_way_twice :: "8 word MissionMonitor" where
  "wrong_way_twice =
     fst (run 32 [(0, Heatbeat (rover_heartbeat ROVER_MODE_AUTO)), (0, GPSRawInt 3),
                  (1, NavControllerOutput 50), (2, NavControllerOutput 60),
                  (3, NavControllerOutput 70)] monitor0)"

definition wrong_way_new_leg :: "8 word MissionMonitor" where
  "wrong_way_new_leg =
     fst (run 32 [(0, Heatbeat (rover_heartbeat ROVER_MODE_AUTO)),
                  (1, NavControllerOutput 50), (2, NavControllerOutput 60),
                  (3, MissionCurrent 1)] monitor0)"

text \<open>
  The readings 50, 60, 70 followed by two ticks; the state after the tick that plays the
  wrong-direction sound, and events that let the count grow further; a list of \<open>n\<close>
  readings that grow from 71 in steps of one.
\<close>

definition readings_then_ticks :: "(32 word \<times> event) list" where
  "readings_then_ticks =
     [(1, NavControllerOutput 50), (2, NavControllerOutput 60), (3, NavControllerOutput 70),
      (4, Tick), (5, Tick)]"

definition after_sound :: "8 word MissionMonitor" where
  "after_sound = fst (tick 4 wrong_way_twice)"

definition growth_then_tick :: "(32 word \<times> event) list" where
  "growth_then_tick = [(5, NavControllerOutput 80), (6, NavControllerOutput 80), (7, Tick)]"

definition growing :: "nat \<Rightarrow> (32 word \<times> event) list" where
  "growing n = map (\<lambda>i. (5, NavControllerOutput (of_nat (71 + i)))) [0..<n]"

section \<open>Properties\<close>

subsection \<open>Evaluating the examples\<close>

lemmas ROVER_MODE_defs =
  ROVER_MODE_MANUAL_def ROVER_MODE_ACRO_def ROVER_MODE_STEERING_def ROVER_MODE_HOLD_def
  ROVER_MODE_LOITER_def ROVER_MODE_AUTO_def ROVER_MODE_RTL_def ROVER_MODE_SMART_RTL_def
  ROVER_MODE_GUIDED_def ROVER_MODE_INITIALIZING_def ROVER_MODE_ENUM_END_def

lemmas handler_defs =
  onHeatbeat_def onMissionItemReached_def onNavControllerOutput_def onMissionCurrent_def
  onGPSRawInt_def onGPS2Raw_def tick_def evaluateMission_def start_def failMission_def
  play_def equals_minus_one_def isAutoMode_def isHoldMode_def mavlinkLost_def gpsLost_def
  noProgress_def

lemmas example_defs =
  rover_heartbeat_def gcs_heartbeat_def monitor0_def MissionMonitor_init_def
  ROVER_MODE_defs MAV_TYPE_GROUND_ROVER_def

lemma auto_linked_eq:
  "auto_linked =
     \<lparr> secondsBeforeEmergencyStop = 1, lowestGpsFixTpye = 3, roverMode = 10,
       mavModeFlag = 0, lastHeartbeatTimeMilliseconds = 0, firstHeartbeat = True,
       lastDistanceToWaypoint = 65535, lastProgressMadeTimeMilliseconds = 0,
       currentWaypointSequenceId = 0, wrongDirection = False, wrongDirectionCount = 0,
       gps1FixType = 0, gps2FixType = 0, firstTick = False, isFailed = False \<rparr>"
  by (simp add: auto_linked_def handler_defs example_defs)

lemma hold_linked_eq:
  "hold_linked =
     \<lparr> secondsBeforeEmergencyStop = 1, lowestGpsFixTpye = 3, roverMode = 4,
       mavModeFlag = 0, lastHeartbeatTimeMilliseconds = 0, firstHeartbeat = True,
       lastDistanceToWaypoint = 65535, lastProgressMadeTimeMilliseconds = 0,
       currentWaypointSequenceId = 0, wrongDirection = False, wrongDirectionCount = 0,
       gps1FixType = 3, gps2FixType = 0, firstTick = False, isFailed = False \<rparr>"
  by (simp add: hold_linked_def handler_defs example_defs)

lemma failed_hold_eq:
  "failed_hold =
     \<lparr> secondsBeforeEmergencyStop = 1, lowestGpsFixTpye = 3, roverMode = 4,
       mavModeFlag = 0, lastHeartbeatTimeMilliseconds = 0, firstHeartbeat = False,
       lastDistanceToWaypoint = 65535, lastProgressMadeTimeMilliseconds = 0,
       currentWaypointSequenceId = 0, wrongDirection = False, wrongDirectionCount = 0,
       gps1FixType = 3, gps2FixType = 0, firstTick = True, isFailed = True \<rparr>"
  by (simp add: failed_hold_def link_loss_in_hold_def handler_defs example_defs)

lemma wrong_way_twice_eq:
  "wrong_way_twice =
     \<lparr> secondsBeforeEmergencyStop = 1, lowestGpsFixTpye = 3, roverMode = 10,
       mavModeFlag = 0, lastHeartbeatTimeMilliseconds = 0, firstHeartbeat = True,
       lastDistanceToWaypoint = 70, lastProgressMadeTimeMilliseconds = 1,
       currentWaypointSequenceId = 0, wrongDirection = True, wrongDirectionCount = 2,
       gps1FixType = 3, gps2FixType = 0, firstTick = False, isFailed = False \<rparr>"
  by (simp add: wrong_way_twice_def handler_defs example_defs)

lemma wrong_way_new_leg_eq:
  "wrong_way_new_leg =
     \<lparr> secondsBeforeEmergencyStop = 1, lowestGpsFixTpye = 3, roverMode = 10,
       mavModeFlag = 0, lastHeartbeatTimeMilliseconds = 0, firstHeartbeat = True,
       lastDistanceToWaypoint = 65535, lastProgressMadeTimeMilliseconds = 3,
       currentWaypointSequenceId = 1, wrongDirection = True, wrongDirectionCount = 1,
       gps1FixType = 0, gps2FixType = 0, firstTick = False, isFailed = False \<rparr>"
  by (simp add: wrong_way_new_leg_def handler_defs example_defs)

subsection \<open>The sounds of a mode announcement\<close>

lemma play_cases:
  "play m = [] \<or> (\<exists>x \<in> {MANUAL_MODE_SOUND, ACRO_MODE_SOUND, STEERING_MODE_SOUND, HOLD_MODE_SOUND,
       LOITER_MODE_SOUND, AUTO_MODE_SOUND, RTL_MODE_SOUND, SRTL_MODE_SOUND, GUIDED_MODE_SOUND}.
     play m = [audioPlay x])"
  by (simp add: play_def)


lemma play_not_wrong_direction: "audioPlay WRONG_DIRECTION_SOUND \<notin> set (play m)"
  by (simp add: play_def)

subsection \<open>The failed latch\<close>

lemma evaluateMission_failed: "isFailed s \<Longrightarrow> evaluateMission now s = (s, [])"
  by (simp add: evaluateMission_def)

lemma tick_failed: "isFailed s \<Longrightarrow> firstTick s \<Longrightarrow> tick now s = (s, [])"
  by (simp add: tick_def evaluateMission_failed)

lemma step_failed:
  assumes "isFailed s" "firstTick s" "\<not> isModeChange (roverMode s) e"
  shows "isFailed (fst (step ib (now, e) s)) \<and> firstTick (fst (step ib (now, e) s)) \<and>
         roverMode (fst (step ib (now, e) s)) = roverMode s \<and>
         set (snd (step ib (now, e) s)) \<subseteq> {audioPlay MAVLINK_GOOD_SOUND}"
  using assms
  by (cases e) (auto simp: tick_failed onHeatbeat_def onMissionItemReached_def
      onNavControllerOutput_def onMissionCurrent_def onGPSRawInt_def onGPS2Raw_def Let_def)

lemma run_failed:
  "isFailed s \<Longrightarrow> firstTick s \<Longrightarrow> list_all (\<lambda>e. \<not> isModeChange (roverMode s) (snd e)) es \<Longrightarrow>
   isFailed (fst (run ib es s)) \<and> set (snd (run ib es s)) \<subseteq> {audioPlay MAVLINK_GOOD_SOUND}"
proof (induction es arbitrary: s)
  case Nil
  then show ?case by simp
next
  case (Cons e es)
  obtain now ev where e: "e = (now, ev)" by (cases e)
  obtain s1 o1 where st: "step ib (now, ev) s = (s1, o1)" by (cases "step ib (now, ev) s")
  from Cons.prems e have nc: "\<not> isModeChange (roverMode s) ev" by simp
  from step_failed [OF Cons.prems(1,2) nc, of ib now] st
  have s1: "isFailed s1" "firstTick s1" "roverMode s1 = roverMode s"
    "set o1 \<subseteq> {audioPlay MAVLINK_GOOD_SOUND}" by simp_all
  from Cons.prems(3) s1(3)
  have "list_all (\<lambda>e. \<not> isModeChange (roverMode s1) (snd e)) es" by simp
  from Cons.IH [OF s1(1,2) this]
  have "isFailed (fst (run ib es s1))"
    "set (snd (run ib es s1)) \<subseteq> {audioPlay MAVLINK_GOOD_SOUND}" by simp_all
  with s1(4) show ?case
    by (simp add: e st case_prod_beta)
qed

lemma failed_step_back:
  "isFailed s \<Longrightarrow> \<not> isFailed (fst (step ib (now, e) s)) \<Longrightarrow> isModeChange (roverMode s) e"
  by (cases e) (auto simp: tick_def evaluateMission_failed onHeatbeat_def onMissionItemReached_def
      onNavControllerOutput_def onMissionCurrent_def onGPSRawInt_def onGPS2Raw_def Let_def
      split: if_splits prod.splits)

subsection \<open>What a tick keeps and adds\<close>

lemma evaluateMission_frame:
  "roverMode (fst (evaluateMission now s)) = roverMode s"
  "gps1FixType (fst (evaluateMission now s)) = gps1FixType s"
  "gps2FixType (fst (evaluateMission now s)) = gps2FixType s"
  "lowestGpsFixTpye (fst (evaluateMission now s)) = lowestGpsFixTpye s"
  "secondsBeforeEmergencyStop (fst (evaluateMission now s)) = secondsBeforeEmergencyStop s"
  "lastProgressMadeTimeMilliseconds (fst (evaluateMission now s)) = lastProgressMadeTimeMilliseconds s"
  "lastHeartbeatTimeMilliseconds (fst (evaluateMission now s)) = lastHeartbeatTimeMilliseconds s"
  "firstTick (fst (evaluateMission now s)) = firstTick s"
  by (simp_all add: evaluateMission_def failMission_def Let_def)

lemma tick_fst:
  "fst (tick now s) = (fst (evaluateMission now s))\<lparr> firstTick := True \<rparr>"
  by (cases "evaluateMission now s") (simp add: tick_def)

lemma tick_snd:
  "snd (tick now s) =
     snd (evaluateMission now s) @ (if firstTick s then [] else [audioPlay READY_SOUND])"
  using evaluateMission_frame(8) [of now s]
  by (cases "evaluateMission now s") (simp add: tick_def)

lemma step_failed_firstTick:
  "isFailed s \<longrightarrow> firstTick s \<Longrightarrow>
   isFailed (fst (step ib (now, e) s)) \<longrightarrow> firstTick (fst (step ib (now, e) s))"
  by (cases e) (simp_all add: tick_fst onHeatbeat_def start_def onMissionItemReached_def
      onNavControllerOutput_def onMissionCurrent_def onGPSRawInt_def onGPS2Raw_def Let_def
      split: if_splits prod.splits)

lemma run_failed_firstTick:
  "isFailed s \<longrightarrow> firstTick s \<Longrightarrow>
   isFailed (fst (run ib es s)) \<longrightarrow> firstTick (fst (run ib es s))"
proof (induction es arbitrary: s)
  case Nil
  then show ?case by simp
next
  case (Cons e es)
  obtain now ev where e: "e = (now, ev)" by (cases e)
  from Cons.IH [OF step_failed_firstTick [OF Cons.prems, of ib now ev]]
  show ?case by (simp add: e case_prod_beta)
qed

subsection \<open>Link loss\<close>

lemma evaluateMission_link_lost:
  assumes "mavlinkLost now s" "\<not> isFailed s"
  shows "isFailed (fst (evaluateMission now s))"
    and "\<not> firstHeartbeat (fst (evaluateMission now s))"
    and "firstTick (fst (evaluateMission now s)) = firstTick s"
    and "take 4 (snd (evaluateMission now s)) =
           [powerRelayOff, alarmRelayOn, audioPlay EMERGENCY_STOP_SOUND,
            audioPlay MAVLINK_BAD_SOUND]"
  using assms by (simp_all add: evaluateMission_def failMission_def Let_def)

text \<open>
  The timeout test works on 32-bit words. When the timeout in milliseconds, computed
  without wrap-around, is at most the elapsed time, the test of the code succeeds.
\<close>

lemma timeout_reached_nat:
  fixes secs elapsed :: "32 word"
  assumes "unat secs * 1000 \<le> unat elapsed"
  shows "secs * 1000 \<le> elapsed"
proof -
  have k: "unat (1000 :: 32 word) = 1000" by simp
  have l: "LENGTH(32) = 32" by simp
  have "unat elapsed < 2 ^ 32" using unsigned_less [of elapsed, where 'a = nat] by simp
  with assms have "unat secs * 1000 < 2 ^ 32" by linarith
  then have "unat secs * unat (1000 :: 32 word) < 2 ^ LENGTH(32)" by (simp only: k l)
  then have "unat (secs * 1000) = unat secs * unat (1000 :: 32 word)"
    by (rule unat_mult_lem [THEN iffD1])
  with assms k show ?thesis by (simp only: word_le_nat_alt)
qed

subsection \<open>The mode commands\<close>

lemma evaluateMission_gps_lost:
  assumes "isAutoMode s" "gpsLost s" "\<not> isFailed s"
  shows "sendModeChange ROVER_MODE_HOLD \<in> set (snd (evaluateMission now s))"
    and "audioPlay GPS_SIGNAL_LOW_SOUND \<in> set (snd (evaluateMission now s))"
    and "\<not> mavlinkLost now s \<Longrightarrow> \<not> isFailed (fst (evaluateMission now s))"
  using assms by (simp_all add: evaluateMission_def failMission_def Let_def)

lemma evaluateMission_hold:
  assumes "isHoldMode s" "\<not> gpsLost s" "\<not> isFailed s"
  shows "sendModeChange ROVER_MODE_AUTO \<in> set (snd (evaluateMission now s))"
    and "\<not> mavlinkLost now s \<Longrightarrow> \<not> isFailed (fst (evaluateMission now s))"
  using assms
  by (simp_all add: evaluateMission_def failMission_def Let_def isAutoMode_def isHoldMode_def
      ROVER_MODE_AUTO_def ROVER_MODE_HOLD_def)

subsection \<open>The wrong-direction sound\<close>

lemma three_neq_two: "(3 :: 'w::len word) \<noteq> 2"
proof
  assume "(3 :: 'w word) = 2"
  then have "(3 :: 'w word) - 2 = 2 - 2" by simp
  then show False by simp
qed

lemma evaluateMission_wrong_direction:
  assumes "isAutoMode s" "\<not> isFailed s" "wrongDirectionCount s = 2"
  shows "count_list (snd (evaluateMission now s)) (audioPlay WRONG_DIRECTION_SOUND) = 1"
    and "wrongDirectionCount (fst (evaluateMission now s)) = 3"
  using assms by (simp_all add: evaluateMission_def failMission_def Let_def)

lemma evaluateMission_wrong_direction_only:
  assumes "audioPlay WRONG_DIRECTION_SOUND \<in> set (snd (evaluateMission now s))"
  shows "wrongDirectionCount s = 2 \<and> isAutoMode s \<and> \<not> isFailed s"
  using assms by (simp add: evaluateMission_def failMission_def Let_def split: if_splits)

lemma step_wrong_direction_only:
  assumes "audioPlay WRONG_DIRECTION_SOUND \<in> set (snd (step ib (now, e) s))"
  shows "e = Tick \<and> wrongDirectionCount s = 2 \<and> isAutoMode s \<and> \<not> isFailed s"
proof (cases e)
  case (Heatbeat hb)
  with assms play_not_wrong_direction [of "custom_mode hb"] show ?thesis
    by (simp add: onHeatbeat_def start_def Let_def split: if_splits)
next
  case Tick
  with assms evaluateMission_wrong_direction_only [of now s] show ?thesis
    by (simp add: tick_snd split: if_splits)
qed (use assms in \<open>simp_all add: onMissionItemReached_def onNavControllerOutput_def
      onMissionCurrent_def onGPSRawInt_def onGPS2Raw_def Let_def split: if_splits prod.splits\<close>)

lemma readings_50_60_70:
  assumes "lastDistanceToWaypoint s = - 1"
  shows "wrongDirectionCount (fst (run ib [(t1, NavControllerOutput 50)] s)) = 0"
    and "wrongDirectionCount (fst (run ib [(t1, NavControllerOutput 50),
           (t2, NavControllerOutput 60)] s)) = 1"
    and "wrongDirectionCount (fst (run ib [(t1, NavControllerOutput 50),
           (t2, NavControllerOutput 60), (t3, NavControllerOutput 70)] s)) = 2"
    and "snd (run ib [(t1, NavControllerOutput 50),
           (t2, NavControllerOutput 60), (t3, NavControllerOutput 70)] s) = []"
    and "isFailed (fst (run ib [(t1, NavControllerOutput 50),
           (t2, NavControllerOutput 60), (t3, NavControllerOutput 70)] s)) = isFailed s"
    and "roverMode (fst (run ib [(t1, NavControllerOutput 50),
           (t2, NavControllerOutput 60), (t3, NavControllerOutput 70)] s)) = roverMode s"
  using assms
  by (simp_all add: onNavControllerOutput_def equals_minus_one_def Let_def)

lemma run_append_fst: "fst (run ib (es @ fs) s) = fst (run ib fs (fst (run ib es s)))"
  by (induction es arbitrary: s) (simp_all add: case_prod_beta)

lemma run_append_snd:
  "snd (run ib (es @ fs) s) = snd (run ib es s) @ snd (run ib fs (fst (run ib es s)))"
  by (induction es arbitrary: s) (simp_all add: case_prod_beta)

lemma tick_wrong_direction:
  assumes "isAutoMode s" "\<not> isFailed s" "wrongDirectionCount s = 2"
  shows "count_list (snd (tick now s)) (audioPlay WRONG_DIRECTION_SOUND) = 1"
    and "wrongDirectionCount (fst (tick now s)) = 3"
  using evaluateMission_wrong_direction [OF assms, of now]
  by (simp_all add: tick_snd tick_fst)

lemma tick_not_wrong_direction:
  assumes "wrongDirectionCount s \<noteq> 2"
  shows "count_list (snd (tick now s)) (audioPlay WRONG_DIRECTION_SOUND) = 0"
  using assms step_wrong_direction_only [of ib now Tick s]
  by (auto simp: count_list_0_iff)

lemma two_ticks_after_readings:
  assumes "lastDistanceToWaypoint s = - 1" "isAutoMode s" "\<not> isFailed s"
  shows "count_list (snd (run ib [(t1, NavControllerOutput 50), (t2, NavControllerOutput 60),
           (t3, NavControllerOutput 70), (t4, Tick), (t5, Tick)] s))
           (audioPlay WRONG_DIRECTION_SOUND) = 1"
proof -
  let ?rs = "[(t1, NavControllerOutput 50), (t2, NavControllerOutput 60),
           (t3, NavControllerOutput 70)]"
  define s3 where "s3 = fst (run ib ?rs s)"
  from readings_50_60_70 [OF assms(1)] assms(2,3)
  have s3: "wrongDirectionCount s3 = 2" "snd (run ib ?rs s) = []" "\<not> isFailed s3" "isAutoMode s3"
    by (simp_all add: s3_def isAutoMode_def)
  define s4 where "s4 = fst (tick t4 s3)"
  from tick_wrong_direction [OF s3(4,3,1), of t4]
  have t4: "count_list (snd (tick t4 s3)) (audioPlay WRONG_DIRECTION_SOUND) = 1"
    "wrongDirectionCount s4 = 3" by (simp_all add: s4_def)
  from t4(2) have "wrongDirectionCount s4 \<noteq> 2" by (simp add: three_neq_two)
  from tick_not_wrong_direction [OF this, of t5]
  have t5: "count_list (snd (tick t5 s4)) (audioPlay WRONG_DIRECTION_SOUND) = 0" .
  have "snd (run ib (?rs @ [(t4, Tick), (t5, Tick)]) s)
      = snd (run ib ?rs s) @ snd (run ib [(t4, Tick), (t5, Tick)] s3)"
    by (simp only: run_append_snd s3_def)
  moreover have "snd (run ib [(t4, Tick), (t5, Tick)] s3) = snd (tick t4 s3) @ snd (tick t5 s4)"
    by (simp add: case_prod_beta s4_def)
  ultimately have "count_list (snd (run ib (?rs @ [(t4, Tick), (t5, Tick)]) s))
      (audioPlay WRONG_DIRECTION_SOUND) = 1"
    using s3(2) t4(1) t5 by (simp only: append_Nil count_list_append)
  then show ?thesis by (simp only: append_Cons append_Nil)
qed

lemma step_wrongDirectionCount:
  "wrongDirectionCount (fst (step ib (now, e) s)) = wrongDirectionCount s \<or>
   wrongDirectionCount (fst (step ib (now, e) s)) = wrongDirectionCount s + 1 \<or>
   wrongDirectionCount (fst (step ib (now, e) s)) = 0"
proof (cases e)
  case Tick
  have "wrongDirectionCount (fst (evaluateMission now s)) = wrongDirectionCount s \<or>
        wrongDirectionCount (fst (evaluateMission now s)) = wrongDirectionCount s + 1"
    by (simp add: evaluateMission_def failMission_def Let_def)
  with Tick show ?thesis by (auto simp: tick_fst)
qed (auto simp: onHeatbeat_def start_def onMissionItemReached_def
      onNavControllerOutput_def onMissionCurrent_def onGPSRawInt_def onGPS2Raw_def Let_def
      split: if_splits prod.splits)

text \<open>
  Along events that never let the count decrease the sound is played at most once: after
  the tick that plays it the count is 3, above 2, and stays above 2.
\<close>

lemma run_silent_above_two:
  "unat (2 :: 'w::len word) < unat (wrongDirectionCount s) \<Longrightarrow> countNeverDrops ib es s \<Longrightarrow>
   count_list (snd (run ib es (s :: 'w word MissionMonitor))) (audioPlay WRONG_DIRECTION_SOUND) = 0"
proof (induction es arbitrary: s)
  case Nil
  then show ?case by simp
next
  case (Cons e es)
  obtain now ev where e: "e = (now, ev)" by (cases e)
  from Cons.prems(1) have ne: "wrongDirectionCount s \<noteq> 2" by auto
  with step_wrong_direction_only [of ib now ev s]
  have quiet: "count_list (snd (step ib (now, ev) s)) (audioPlay WRONG_DIRECTION_SOUND) = 0"
    by (auto simp: count_list_0_iff)
  from Cons.prems have "unat (2 :: 'w word) < unat (wrongDirectionCount (fst (step ib e s)))"
    and "countNeverDrops ib es (fst (step ib e s))" by simp_all
  from Cons.IH [OF this]
  have "count_list (snd (run ib es (fst (step ib e s)))) (audioPlay WRONG_DIRECTION_SOUND) = 0" .
  with quiet show ?case by (simp add: e case_prod_beta count_list_append del: step.simps)
qed

lemma run_sound_at_most_once:
  "countNeverDrops ib es s \<Longrightarrow>
   count_list (snd (run ib es (s :: 'w::len word MissionMonitor))) (audioPlay WRONG_DIRECTION_SOUND) \<le> 1"
proof (induction es arbitrary: s)
  case Nil
  then show ?case by simp
next
  case (Cons e es)
  obtain now ev where e: "e = (now, ev)" by (cases e)
  let ?s1 = "fst (step ib (now, ev) s)"
  from Cons.prems e have mono: "unat (wrongDirectionCount s) \<le> unat (wrongDirectionCount ?s1)"
    and rest: "countNeverDrops ib es ?s1" by simp_all
  show ?case
  proof (cases "audioPlay WRONG_DIRECTION_SOUND \<in> set (snd (step ib (now, ev) s))")
    case True
    from step_wrong_direction_only [OF True]
    have f: "ev = Tick" "wrongDirectionCount s = 2" "isAutoMode s" "\<not> isFailed s" by simp_all
    from tick_wrong_direction [OF f(3,4,2), of now] f(1)
    have one: "count_list (snd (step ib (now, ev) s)) (audioPlay WRONG_DIRECTION_SOUND) = 1"
      and three: "wrongDirectionCount ?s1 = 3" by simp_all
    from three three_neq_two have "wrongDirectionCount ?s1 \<noteq> wrongDirectionCount s"
      by (simp add: f(2))
    then have "unat (wrongDirectionCount ?s1) \<noteq> unat (wrongDirectionCount s)"
      by (simp add: word_unat_eq_iff)
    with mono f(2) have "unat (2 :: 'w word) < unat (wrongDirectionCount ?s1)" by simp
    from run_silent_above_two [OF this rest] one
    show ?thesis by (simp add: e case_prod_beta count_list_append del: step.simps)
  next
    case False
    then have "count_list (snd (step ib (now, ev) s)) (audioPlay WRONG_DIRECTION_SOUND) = 0"
      by (simp add: count_list_0_iff)
    with Cons.IH [OF rest] show ?thesis
      by (simp add: e case_prod_beta count_list_append del: step.simps)
  qed
qed

lemma after_sound_eq:
  "after_sound = wrong_way_twice\<lparr> wrongDirectionCount := 3, firstTick := True \<rparr>"
  by (simp add: after_sound_def wrong_way_twice_eq handler_defs ROVER_MODE_defs)

text \<open>
  With an 8-bit count one streak can play the sound twice: after the sound at count 2,
  255 further growing readings, none of them progress, take the count around to 2 again.
\<close>

lemma eight_bit_count_wraps_within_streak:
  "run 32 ((4, Tick) # growing 255 @ [(900, Tick)]) wrong_way_twice =
     (wrong_way_twice\<lparr> lastDistanceToWaypoint := 325, wrongDirectionCount := 3,
                       firstTick := True \<rparr>,
      [audioPlay WRONG_DIRECTION_SOUND, audioPlay READY_SOUND,
       audioPlay WRONG_DIRECTION_SOUND])"
  by code_simp

subsection \<open>The link-acquired sound\<close>







subsection \<open>The progress time\<close>

lemma noProgress_disarmed: "lastProgressMadeTimeMilliseconds s = 0 \<Longrightarrow> \<not> noProgress now s"
  by (simp add: noProgress_def)

lemma evaluateMission_disarmed:
  assumes "lastProgressMadeTimeMilliseconds s = 0" "\<not> mavlinkLost now s" "\<not> isFailed s"
  shows "\<not> isFailed (fst (evaluateMission now s))"
  using assms by (simp add: evaluateMission_def failMission_def noProgress_def Let_def)

lemma step_mode_change_disarms:
  assumes "isModeChange (roverMode s) e"
  shows "lastProgressMadeTimeMilliseconds (fst (step ib (now, e) s)) = 0"
  using assms by (cases e) (simp_all add: onHeatbeat_def start_def Let_def)

lemma step_arms:
  assumes "\<not> isModeChange (roverMode s) e"
    and "lastProgressMadeTimeMilliseconds (fst (step ib (now, e) s)) \<noteq>
         lastProgressMadeTimeMilliseconds s"
  shows "armsProgress e \<and> lastProgressMadeTimeMilliseconds (fst (step ib (now, e) s)) = now"
  using assms
  by (cases e) (auto simp: onHeatbeat_def onMissionItemReached_def
      onNavControllerOutput_def onMissionCurrent_def onGPSRawInt_def onGPS2Raw_def tick_fst
      evaluateMission_frame Let_def split: if_splits prod.splits)

subsection \<open>The distance readings\<close>

lemma equals_minus_one_iff: "equals_minus_one ib d \<longleftrightarrow> ib \<le> 16 \<and> d = - 1"
proof -
  have "0 \<le> uint d" by simp
  then have "uint d \<noteq> - 1" by linarith
  then show ?thesis by (auto simp: equals_minus_one_def)
qed

lemma not_above_unknown: "\<not> (- 1 :: 16 word) < d"
  by (simp add: not_less)

lemma onNavControllerOutput_table:
  assumes "ib \<le> 16 \<or> \<not> (lastDistanceToWaypoint s = - 1 \<and> d = - 1 \<and> wrongDirection s)"
  shows "onNavControllerOutput ib now d s =
     (if lastDistanceToWaypoint s = - 1 \<or> d < lastDistanceToWaypoint s \<or>
         (d = lastDistanceToWaypoint s \<and> \<not> wrongDirection s)
      then s\<lparr> lastDistanceToWaypoint := d, lastProgressMadeTimeMilliseconds := now,
               wrongDirection := False, wrongDirectionCount := 0 \<rparr>
      else if d = lastDistanceToWaypoint s
      then s\<lparr> lastDistanceToWaypoint := d \<rparr>
      else s\<lparr> lastDistanceToWaypoint := d, wrongDirection := True,
               wrongDirectionCount := wrongDirectionCount s + 1 \<rparr>, [])"
  using assms
  apply (cases s)
  apply (auto simp: onNavControllerOutput_def equals_minus_one_iff not_above_unknown Let_def)
  done

text \<open>
  The sequence unknown, 100, 100, 90 with the wrong-direction flag clear: every reading,
  the unknown value 65535 included, makes progress and leaves the count at 0, whatever
  the width of \<^verbatim>\<open>int\<close>.
\<close>

lemma readings_unknown_100_100_90:
  assumes "lastDistanceToWaypoint s = - 1" "\<not> wrongDirection s"
  shows "fst (run ib [(t0, NavControllerOutput (- 1))] s) =
           s\<lparr> lastDistanceToWaypoint := - 1, lastProgressMadeTimeMilliseconds := t0,
              wrongDirection := False, wrongDirectionCount := 0 \<rparr>"
    and "fst (run ib [(t0, NavControllerOutput (- 1)), (t1, NavControllerOutput 100)] s) =
           s\<lparr> lastDistanceToWaypoint := 100, lastProgressMadeTimeMilliseconds := t1,
              wrongDirection := False, wrongDirectionCount := 0 \<rparr>"
    and "fst (run ib [(t0, NavControllerOutput (- 1)), (t1, NavControllerOutput 100),
           (t2, NavControllerOutput 100)] s) =
           s\<lparr> lastDistanceToWaypoint := 100, lastProgressMadeTimeMilliseconds := t2,
              wrongDirection := False, wrongDirectionCount := 0 \<rparr>"
    and "fst (run ib [(t0, NavControllerOutput (- 1)), (t1, NavControllerOutput 100),
           (t2, NavControllerOutput 100), (t3, NavControllerOutput 90)] s) =
           s\<lparr> lastDistanceToWaypoint := 90, lastProgressMadeTimeMilliseconds := t3,
              wrongDirection := False, wrongDirectionCount := 0 \<rparr>"
  using assms
  by (cases s; simp add: onNavControllerOutput_def equals_minus_one_iff Let_def)+

section \<open>The claims\<close>

subsection \<open>C1: the failed latch\<close>

text \<open>
  C1, as stated, fails: the latch is tested once, when \<^verbatim>\<open>evaluateMission\<close> is
  entered, and a tick that calls \<^verbatim>\<open>failMission\<close> for a lost link goes on through
  the rest of the function. Here the monitor is in AUTO mode without a GPS fix and has
  heard no heartbeat for five seconds; after the three effects of \<^verbatim>\<open>failMission\<close>
  the same tick plays the link-lost sound, requests HOLD mode and plays the GPS sound.
  With a GPS fix, a stalled progress time and a count of 2, the tick that loses the link
  calls \<^verbatim>\<open>failMission\<close> a second time, switching the relays again, and plays the
  wrong-direction sound.
\<close>

theorem evaluateMission_runs_on_after_failMission:
  "\<not> isFailed auto_linked \<and>
   evaluateMission 5000 auto_linked =
     (auto_linked\<lparr> isFailed := True, firstHeartbeat := False \<rparr>,
      [powerRelayOff, alarmRelayOn, audioPlay EMERGENCY_STOP_SOUND,
       audioPlay MAVLINK_BAD_SOUND,
       sendModeChange ROVER_MODE_HOLD, audioPlay GPS_SIGNAL_LOW_SOUND]) \<and>
   \<not> isFailed wrong_way_twice \<and>
   snd (evaluateMission 5000 wrong_way_twice) =
     [powerRelayOff, alarmRelayOn, audioPlay EMERGENCY_STOP_SOUND,
      audioPlay MAVLINK_BAD_SOUND,
      powerRelayOff, alarmRelayOn, audioPlay EMERGENCY_STOP_SOUND,
      audioPlay WRONG_DIRECTION_SOUND]"
  by (simp add: auto_linked_eq wrong_way_twice_eq handler_defs example_defs)

text \<open>
  C1, amended: when the failed latch is set as a tick's evaluation starts, the evaluation
  changes no field and makes no call on the relays, the audio player or the mode command
  (and the tick as a whole does nothing once the first tick has passed, which is the case
  in every failed state reached from construction). Over any sequence of events without a
  heartbeat of the rover in a mode other than the stored one the latch stays set, and the
  only effect is the link-acquired sound of a heartbeat; the latch is cleared by no event
  but such a heartbeat. \<^verbatim>\<open>failMission\<close> sets the latch, switches the power relay off
  and the alarm relay on, and plays the emergency-stop sound.
\<close>

theorem failed_latch_silences_tick:
  "(isFailed s \<longrightarrow> evaluateMission now s = (s, [])) \<and>
   (isFailed s \<and> firstTick s \<longrightarrow> tick now s = (s, [])) \<and>
   (isFailed s \<and> firstTick s \<and>
      list_all (\<lambda>e. \<not> isModeChange (roverMode s) (snd e)) es \<longrightarrow>
        isFailed (fst (run ib es s)) \<and>
        set (snd (run ib es s)) \<subseteq> {audioPlay MAVLINK_GOOD_SOUND}) \<and>
   (isFailed s \<and> \<not> isFailed (fst (step ib (now, e) s)) \<longrightarrow>
      isModeChange (roverMode s) e) \<and>
   (isFailed (fst (run ib es0 (MissionMonitor_init secs lowest hb0 :: 'w::len word MissionMonitor))) \<longrightarrow>
      firstTick (fst (run ib es0 (MissionMonitor_init secs lowest hb0 :: 'w word MissionMonitor)))) \<and>
   isFailed (fst (failMission s)) \<and>
   snd (failMission s) = [powerRelayOff, alarmRelayOn, audioPlay EMERGENCY_STOP_SOUND]"
proof -
  have "isFailed (MissionMonitor_init secs lowest hb0 :: 'w word MissionMonitor) \<longrightarrow>
        firstTick (MissionMonitor_init secs lowest hb0 :: 'w word MissionMonitor)"
    by (simp add: MissionMonitor_init_def)
  from run_failed_firstTick [OF this]
  have "isFailed (fst (run ib es0 (MissionMonitor_init secs lowest hb0 :: 'w word MissionMonitor))) \<longrightarrow>
      firstTick (fst (run ib es0 (MissionMonitor_init secs lowest hb0 :: 'w word MissionMonitor)))" .
  moreover have "isFailed (fst (failMission s))"
    "snd (failMission s) = [powerRelayOff, alarmRelayOn, audioPlay EMERGENCY_STOP_SOUND]"
    by (simp_all add: failMission_def)
  ultimately show ?thesis
    using evaluateMission_failed [of s now] tick_failed [of s now] run_failed [of s es ib]
      failed_step_back [of s ib now e]
    by blast
qed

text \<open>The hypotheses of C1 hold in the state reached by a link loss in HOLD mode.\<close>

theorem failed_latch_silences_tick_witness:
  "isFailed failed_hold \<and> firstTick failed_hold \<and>
   list_all (\<lambda>e. \<not> isModeChange (roverMode failed_hold) (snd e)) quiet_events \<and>
   \<not> isFailed (fst (step 32 (6000, Heatbeat (rover_heartbeat ROVER_MODE_AUTO)) failed_hold)) \<and>
   isFailed (fst (run 32 link_loss_in_hold monitor0)) \<and>
   evaluateMission 6000 failed_hold = (failed_hold, []) \<and>
   tick 6000 failed_hold = (failed_hold, []) \<and>
   isFailed (fst (run 32 quiet_events failed_hold)) \<and>
   set (snd (run 32 quiet_events failed_hold)) \<subseteq> {audioPlay MAVLINK_GOOD_SOUND} \<and>
   isModeChange (roverMode failed_hold) (Heatbeat (rover_heartbeat ROVER_MODE_AUTO)) \<and>
   firstTick (fst (run 32 link_loss_in_hold monitor0))"
proof -
  have h1: "isFailed failed_hold" and h2: "firstTick failed_hold"
    by (simp_all add: failed_hold_eq)
  have h3: "list_all (\<lambda>e. \<not> isModeChange (roverMode failed_hold) (snd e)) quiet_events"
    by (simp add: failed_hold_eq quiet_events_def example_defs)
  have h4: "\<not> isFailed (fst (step 32 (6000, Heatbeat (rover_heartbeat ROVER_MODE_AUTO)) failed_hold))"
    by (simp add: failed_hold_eq example_defs handler_defs)
  have h5: "isFailed (fst (run 32 link_loss_in_hold monitor0))"
    using h1 by (simp only: failed_hold_def)
  from h1 h2 h3 h4 h5
    failed_latch_silences_tick [of failed_hold 6000 quiet_events 32
      "Heatbeat (rover_heartbeat ROVER_MODE_AUTO)" link_loss_in_hold 1 3 0, where ?'w = 8]
  show ?thesis unfolding monitor0_def by blast
qed

subsection \<open>C2: a mode change resets the monitor\<close>

text \<open>
  C2, as stated, fails: \<^verbatim>\<open>onHeatbeat\<close> looks at the mode only when the heartbeat's
  vehicle type is the ground rover. The heartbeat of a ground control station reports
  custom mode 0, which differs from the stored HOLD mode; the latch stays set, the stored
  mode stays HOLD and no relay is switched.
\<close>

theorem gcs_heartbeat_does_not_reset:
  "custom_mode gcs_heartbeat \<noteq> roverMode failed_hold \<and>
   onHeatbeat 6000 gcs_heartbeat failed_hold =
     (failed_hold\<lparr> lastHeartbeatTimeMilliseconds := 6000, firstHeartbeat := True \<rparr>,
      [audioPlay MAVLINK_GOOD_SOUND]) \<and>
   isFailed (fst (onHeatbeat 6000 gcs_heartbeat failed_hold)) \<and>
   roverMode (fst (onHeatbeat 6000 gcs_heartbeat failed_hold)) = ROVER_MODE_HOLD"
  by (simp add: failed_hold_eq handler_defs example_defs)

text \<open>
  C2, amended: for every heartbeat of vehicle type ground rover whose custom mode differs
  from the stored mode, whatever the failed latch was, the heartbeat time becomes the clock
  reading, the stored mode and mode flag are updated, the progress time becomes 0, the
  latch and the wrong-direction flag become false, the wrong-direction count becomes 0 and
  the first-heartbeat flag is set; the calls are the announcement of the new mode, power
  relay on, alarm relay off, and the link-acquired sound if the flag was clear. The
  announcement is one sound for each of the nine driving modes and no sound for
  INITIALIZING and for the end marker of the enumeration.
\<close>

theorem onHeatbeat_rover_mode_change_resets:
  "(mav_type hb = MAV_TYPE_GROUND_ROVER \<and> custom_mode hb \<noteq> roverMode s \<longrightarrow>
      onHeatbeat now hb s =
        (s\<lparr> lastHeartbeatTimeMilliseconds := now,
            mavModeFlag := base_mode hb,
            roverMode := custom_mode hb,
            lastProgressMadeTimeMilliseconds := 0,
            isFailed := False,
            wrongDirection := False,
            wrongDirectionCount := 0,
            firstHeartbeat := True \<rparr>,
         play (custom_mode hb) @ [powerRelayOn, alarmRelayOff] @
         (if firstHeartbeat s then [] else [audioPlay MAVLINK_GOOD_SOUND]))) \<and>
   play ROVER_MODE_INITIALIZING = [] \<and> play ROVER_MODE_ENUM_END = [] \<and>
   play ROVER_MODE_MANUAL = [audioPlay MANUAL_MODE_SOUND] \<and>
   play ROVER_MODE_ACRO = [audioPlay ACRO_MODE_SOUND] \<and>
   play ROVER_MODE_STEERING = [audioPlay STEERING_MODE_SOUND] \<and>
   play ROVER_MODE_HOLD = [audioPlay HOLD_MODE_SOUND] \<and>
   play ROVER_MODE_LOITER = [audioPlay LOITER_MODE_SOUND] \<and>
   play ROVER_MODE_AUTO = [audioPlay AUTO_MODE_SOUND] \<and>
   play ROVER_MODE_RTL = [audioPlay RTL_MODE_SOUND] \<and>
   play ROVER_MODE_SMART_RTL = [audioPlay SRTL_MODE_SOUND] \<and>
   play ROVER_MODE_GUIDED = [audioPlay GUIDED_MODE_SOUND]"
proof -
  have "mav_type hb = MAV_TYPE_GROUND_ROVER \<and> custom_mode hb \<noteq> roverMode s \<longrightarrow>
      onHeatbeat now hb s =
        (s\<lparr> lastHeartbeatTimeMilliseconds := now,
            mavModeFlag := base_mode hb,
            roverMode := custom_mode hb,
            lastProgressMadeTimeMilliseconds := 0,
            isFailed := False,
            wrongDirection := False,
            wrongDirectionCount := 0,
            firstHeartbeat := True \<rparr>,
         play (custom_mode hb) @ [powerRelayOn, alarmRelayOff] @
         (if firstHeartbeat s then [] else [audioPlay MAVLINK_GOOD_SOUND]))"
    by (cases s) (simp add: onHeatbeat_def start_def)
  then show ?thesis by (simp add: play_def ROVER_MODE_defs)
qed

text \<open>A rover heartbeat in AUTO mode clears the latch that a link loss in HOLD mode set.\<close>

theorem onHeatbeat_rover_mode_change_resets_witness:
  "mav_type (rover_heartbeat ROVER_MODE_AUTO) = MAV_TYPE_GROUND_ROVER \<and>
   custom_mode (rover_heartbeat ROVER_MODE_AUTO) \<noteq> roverMode failed_hold \<and>
   isFailed failed_hold \<and>
   onHeatbeat 6000 (rover_heartbeat ROVER_MODE_AUTO) failed_hold =
     (failed_hold\<lparr> lastHeartbeatTimeMilliseconds := 6000,
        mavModeFlag := 0,
        roverMode := ROVER_MODE_AUTO,
        lastProgressMadeTimeMilliseconds := 0,
        isFailed := False,
        wrongDirection := False,
        wrongDirectionCount := 0,
        firstHeartbeat := True \<rparr>,
      [audioPlay AUTO_MODE_SOUND, powerRelayOn, alarmRelayOff, audioPlay MAVLINK_GOOD_SOUND])"
proof -
  have h: "mav_type (rover_heartbeat ROVER_MODE_AUTO) = MAV_TYPE_GROUND_ROVER \<and>
     custom_mode (rover_heartbeat ROVER_MODE_AUTO) \<noteq> roverMode failed_hold"
    by (simp add: failed_hold_eq example_defs)
  have f: "isFailed failed_hold" "\<not> firstHeartbeat failed_hold"
    "base_mode (rover_heartbeat ROVER_MODE_AUTO) = 0"
    "custom_mode (rover_heartbeat ROVER_MODE_AUTO) = ROVER_MODE_AUTO"
    by (simp_all add: failed_hold_eq rover_heartbeat_def)
  from onHeatbeat_rover_mode_change_resets [of "rover_heartbeat ROVER_MODE_AUTO" failed_hold 6000] h f
  show ?thesis by simp
qed

subsection \<open>C9: heartbeats of other vehicle types\<close>

text \<open>
  C9: a heartbeat whose vehicle type is not the ground rover records the heartbeat time
  and plays the link-acquired sound when the first-heartbeat flag is clear, setting the
  flag; it changes nothing else, so the stored mode, the progress time and the failed latch
  are as before even when the custom mode differs from the stored mode.
\<close>

theorem onHeatbeat_other_vehicle_type:
  "mav_type hb \<noteq> MAV_TYPE_GROUND_ROVER \<Longrightarrow>
   onHeatbeat now hb s =
     (s\<lparr> lastHeartbeatTimeMilliseconds := now, firstHeartbeat := True \<rparr>,
      if firstHeartbeat s then [] else [audioPlay MAVLINK_GOOD_SOUND]) \<and>
   roverMode (fst (onHeatbeat now hb s)) = roverMode s \<and>
   isFailed (fst (onHeatbeat now hb s)) = isFailed s \<and>
   lastProgressMadeTimeMilliseconds (fst (onHeatbeat now hb s)) =
     lastProgressMadeTimeMilliseconds s"
  by (cases s) (simp add: onHeatbeat_def)

text \<open>The heartbeat of a ground control station leaves the latch set.\<close>

theorem onHeatbeat_other_vehicle_type_witness:
  "mav_type gcs_heartbeat \<noteq> MAV_TYPE_GROUND_ROVER \<and>
   custom_mode gcs_heartbeat \<noteq> roverMode failed_hold \<and>
   isFailed failed_hold \<and>
   isFailed (fst (onHeatbeat 7000 gcs_heartbeat failed_hold)) \<and>
   roverMode (fst (onHeatbeat 7000 gcs_heartbeat failed_hold)) = roverMode failed_hold \<and>
   snd (onHeatbeat 7000 gcs_heartbeat failed_hold) = [audioPlay MAVLINK_GOOD_SOUND]"
proof -
  have h: "mav_type gcs_heartbeat \<noteq> MAV_TYPE_GROUND_ROVER"
    by (simp add: example_defs)
  have f: "custom_mode gcs_heartbeat \<noteq> roverMode failed_hold" "isFailed failed_hold"
    "\<not> firstHeartbeat failed_hold"
    by (simp_all add: failed_hold_eq example_defs)
  from h onHeatbeat_other_vehicle_type [OF h, of 7000 failed_hold] f show ?thesis by simp
qed

subsection \<open>C10: a repeated waypoint announcement\<close>

text \<open>
  C10: \<^verbatim>\<open>onMissionCurrent\<close> with the sequence id that is already stored returns the
  monitor unchanged, every field of it, and makes no call.
\<close>

theorem onMissionCurrent_repeated:
  "seq = currentWaypointSequenceId s \<Longrightarrow> onMissionCurrent now seq s = (s, [])"
  by (simp add: onMissionCurrent_def)

text \<open>Waypoint 1 announced again on the leg that started with it.\<close>

theorem onMissionCurrent_repeated_witness:
  "1 = currentWaypointSequenceId wrong_way_new_leg \<and>
   onMissionCurrent 9 1 wrong_way_new_leg = (wrong_way_new_leg, [])"
proof -
  have h: "1 = currentWaypointSequenceId wrong_way_new_leg"
    by (simp add: wrong_way_new_leg_eq)
  from h onMissionCurrent_repeated [OF h, of 9] show ?thesis by simp
qed

subsection \<open>C5: link loss\<close>

text \<open>
  C5: when a heartbeat has been seen, the time since the last heartbeat (a wrap-around
  difference of 32-bit clock readings) is at least the timeout in milliseconds and the
  latch is clear, the tick sets the latch, clears the first-heartbeat flag and starts with
  the calls power relay off, alarm relay on, emergency-stop sound, link-lost sound. No
  hypothesis is made on the mode.
\<close>

theorem link_loss_fails_mission:
  assumes "firstHeartbeat s"
    and "secondsBeforeEmergencyStop s * 1000 \<le> now - lastHeartbeatTimeMilliseconds s"
    and "\<not> isFailed s"
  shows "isFailed (fst (tick now s)) \<and> \<not> firstHeartbeat (fst (tick now s)) \<and>
         take 4 (snd (tick now s)) =
           [powerRelayOff, alarmRelayOn, audioPlay EMERGENCY_STOP_SOUND,
            audioPlay MAVLINK_BAD_SOUND]"
proof -
  from assms have lost: "mavlinkLost now s" by (simp add: mavlinkLost_def)
  obtain s1 o1 where ev: "evaluateMission now s = (s1, o1)" by (cases "evaluateMission now s")
  from evaluateMission_link_lost [OF lost assms(3)] ev
  have s1: "isFailed s1" "\<not> firstHeartbeat s1"
    and o1: "take 4 o1 = [powerRelayOff, alarmRelayOn, audioPlay EMERGENCY_STOP_SOUND,
            audioPlay MAVLINK_BAD_SOUND]" by simp_all
  from o1 have "length (take 4 o1) = 4" by simp
  then have "4 \<le> length o1" by simp
  with s1 o1 show ?thesis by (simp add: tick_def ev)
qed

text \<open>In HOLD mode, five seconds after the only heartbeat, with a timeout of one second.\<close>

theorem link_loss_fails_mission_witness:
  "firstHeartbeat hold_linked \<and>
   secondsBeforeEmergencyStop hold_linked * 1000
     \<le> 5000 - lastHeartbeatTimeMilliseconds hold_linked \<and>
   \<not> isFailed hold_linked \<and>
   isFailed (fst (tick 5000 hold_linked)) \<and> \<not> firstHeartbeat (fst (tick 5000 hold_linked)) \<and>
   take 4 (snd (tick 5000 hold_linked)) =
     [powerRelayOff, alarmRelayOn, audioPlay EMERGENCY_STOP_SOUND, audioPlay MAVLINK_BAD_SOUND]"
proof -
  have h1: "firstHeartbeat hold_linked"
    and h2: "secondsBeforeEmergencyStop hold_linked * 1000
       \<le> 5000 - lastHeartbeatTimeMilliseconds hold_linked"
    and h3: "\<not> isFailed hold_linked"
    by (simp_all add: hold_linked_eq)
  from h1 h2 h3 link_loss_fails_mission [OF h1 h2 h3] show ?thesis by blast
qed

subsection \<open>C6: the mode commands are level-triggered\<close>

text \<open>
  C6, as stated, fails in its second half: the request for AUTO mode is inside the test of
  the failed latch. After a link loss in HOLD mode with a good GPS fix the latch is set,
  and the next tick sends nothing.
\<close>

theorem no_auto_request_while_failed:
  "isHoldMode failed_hold \<and> \<not> gpsLost failed_hold \<and> tick 6000 failed_hold = (failed_hold, [])"
  by (simp add: failed_hold_eq handler_defs example_defs)

text \<open>
  C6, amended: in AUTO mode with the best fix below the threshold, every tick that starts
  with the latch clear requests HOLD mode and plays the GPS sound, and unless the link is
  lost at that tick the mode, the GPS condition and the clear latch are the same after it,
  so the next tick does so again. In HOLD mode with the fix at or above the threshold,
  every tick that starts with the latch clear requests AUTO mode, and again the condition
  stands after the tick unless the link is lost. With the latch set a tick sends no mode
  request at all.
\<close>

theorem mode_commands_level_triggered:
  "(isAutoMode s \<and> gpsLost s \<and> \<not> isFailed s \<longrightarrow>
      sendModeChange ROVER_MODE_HOLD \<in> set (snd (tick now s)) \<and>
      audioPlay GPS_SIGNAL_LOW_SOUND \<in> set (snd (tick now s))) \<and>
   (isAutoMode s \<and> gpsLost s \<and> \<not> isFailed s \<and> \<not> mavlinkLost now s \<longrightarrow>
      isAutoMode (fst (tick now s)) \<and> gpsLost (fst (tick now s)) \<and>
      \<not> isFailed (fst (tick now s))) \<and>
   (isHoldMode s \<and> \<not> gpsLost s \<and> \<not> isFailed s \<longrightarrow>
      sendModeChange ROVER_MODE_AUTO \<in> set (snd (tick now s))) \<and>
   (isHoldMode s \<and> \<not> gpsLost s \<and> \<not> isFailed s \<and> \<not> mavlinkLost now s \<longrightarrow>
      isHoldMode (fst (tick now s)) \<and> \<not> gpsLost (fst (tick now s)) \<and>
      \<not> isFailed (fst (tick now s))) \<and>
   (isFailed s \<longrightarrow> (\<forall>m. sendModeChange m \<notin> set (snd (tick now s))))"
proof -
  have fr: "isAutoMode (fst (tick now s)) = isAutoMode s"
    "isHoldMode (fst (tick now s)) = isHoldMode s"
    "gpsLost (fst (tick now s)) = gpsLost s"
    "isFailed (fst (tick now s)) = isFailed (fst (evaluateMission now s))"
    by (simp_all add: tick_fst isAutoMode_def isHoldMode_def gpsLost_def evaluateMission_frame)
  have a: "isAutoMode s \<and> gpsLost s \<and> \<not> isFailed s \<longrightarrow>
      sendModeChange ROVER_MODE_HOLD \<in> set (snd (tick now s)) \<and>
      audioPlay GPS_SIGNAL_LOW_SOUND \<in> set (snd (tick now s))"
    by (simp add: tick_snd evaluateMission_gps_lost)
  have b: "isAutoMode s \<and> gpsLost s \<and> \<not> isFailed s \<and> \<not> mavlinkLost now s \<longrightarrow>
      isAutoMode (fst (tick now s)) \<and> gpsLost (fst (tick now s)) \<and>
      \<not> isFailed (fst (tick now s))"
    by (simp add: fr evaluateMission_gps_lost)
  have c: "isHoldMode s \<and> \<not> gpsLost s \<and> \<not> isFailed s \<longrightarrow>
      sendModeChange ROVER_MODE_AUTO \<in> set (snd (tick now s))"
    by (simp add: tick_snd evaluateMission_hold)
  have d: "isHoldMode s \<and> \<not> gpsLost s \<and> \<not> isFailed s \<and> \<not> mavlinkLost now s \<longrightarrow>
      isHoldMode (fst (tick now s)) \<and> \<not> gpsLost (fst (tick now s)) \<and>
      \<not> isFailed (fst (tick now s))"
    by (simp add: fr evaluateMission_hold)
  have e: "isFailed s \<longrightarrow> (\<forall>m. sendModeChange m \<notin> set (snd (tick now s)))"
    by (simp add: tick_snd evaluateMission_failed)
  from a b c d e show ?thesis by blast
qed

text \<open>The three cases: AUTO without a fix, HOLD with a fix, and the latch set.\<close>

theorem mode_commands_level_triggered_witness:
  "(isAutoMode auto_linked \<and> gpsLost auto_linked \<and> \<not> isFailed auto_linked \<and>
    \<not> mavlinkLost 500 auto_linked \<and>
    sendModeChange ROVER_MODE_HOLD \<in> set (snd (tick 500 auto_linked)) \<and>
    audioPlay GPS_SIGNAL_LOW_SOUND \<in> set (snd (tick 500 auto_linked)) \<and>
    isAutoMode (fst (tick 500 auto_linked)) \<and> gpsLost (fst (tick 500 auto_linked)) \<and>
    \<not> isFailed (fst (tick 500 auto_linked))) \<and>
   (isHoldMode hold_linked \<and> \<not> gpsLost hold_linked \<and> \<not> isFailed hold_linked \<and>
    \<not> mavlinkLost 500 hold_linked \<and>
    sendModeChange ROVER_MODE_AUTO \<in> set (snd (tick 500 hold_linked)) \<and>
    isHoldMode (fst (tick 500 hold_linked)) \<and> \<not> gpsLost (fst (tick 500 hold_linked)) \<and>
    \<not> isFailed (fst (tick 500 hold_linked))) \<and>
   (isFailed failed_hold \<and> sendModeChange ROVER_MODE_AUTO \<notin> set (snd (tick 6000 failed_hold)))"
proof -
  have a: "isAutoMode auto_linked \<and> gpsLost auto_linked \<and> \<not> isFailed auto_linked \<and>
    \<not> mavlinkLost 500 auto_linked"
    by (simp add: auto_linked_eq isAutoMode_def gpsLost_def mavlinkLost_def ROVER_MODE_defs)
  have h: "isHoldMode hold_linked \<and> \<not> gpsLost hold_linked \<and> \<not> isFailed hold_linked \<and>
    \<not> mavlinkLost 500 hold_linked"
    by (simp add: hold_linked_eq isHoldMode_def gpsLost_def mavlinkLost_def ROVER_MODE_defs)
  have f: "isFailed failed_hold" by (simp add: failed_hold_eq)
  from a mode_commands_level_triggered [of auto_linked 500]
  have a': "sendModeChange ROVER_MODE_HOLD \<in> set (snd (tick 500 auto_linked)) \<and>
    audioPlay GPS_SIGNAL_LOW_SOUND \<in> set (snd (tick 500 auto_linked)) \<and>
    isAutoMode (fst (tick 500 auto_linked)) \<and> gpsLost (fst (tick 500 auto_linked)) \<and>
    \<not> isFailed (fst (tick 500 auto_linked))"
    by simp
  from h mode_commands_level_triggered [of hold_linked 500]
  have h': "sendModeChange ROVER_MODE_AUTO \<in> set (snd (tick 500 hold_linked)) \<and>
    isHoldMode (fst (tick 500 hold_linked)) \<and> \<not> gpsLost (fst (tick 500 hold_linked)) \<and>
    \<not> isFailed (fst (tick 500 hold_linked))"
    by simp
  from f mode_commands_level_triggered [of failed_hold 6000]
  have f': "sendModeChange ROVER_MODE_AUTO \<notin> set (snd (tick 6000 failed_hold))"
    by simp
  from a h f a' h' f' show ?thesis by simp
qed

subsection \<open>C7: the wrong-direction sound\<close>

text \<open>
  C7, as stated, fails: the count is looked at only when a tick runs. Here the readings
  50, 60, 70, 80 arrive before the first tick. The three moving-away readings take the
  count past 2 to 3, and the two ticks that follow, in AUTO mode with the latch clear,
  play no wrong-direction sound: this streak plays it zero times.
\<close>

theorem streak_past_two_between_ticks_is_silent:
  "run 32 [(0, Heatbeat (rover_heartbeat ROVER_MODE_AUTO)), (0, GPSRawInt 3),
           (1, NavControllerOutput 50), (2, NavControllerOutput 60),
           (3, NavControllerOutput 70), (4, NavControllerOutput 80),
           (5, Tick), (6, Tick)] monitor0 =
     (wrong_way_twice\<lparr> lastDistanceToWaypoint := 80, wrongDirectionCount := 3,
                       firstTick := True \<rparr>,
      [audioPlay AUTO_MODE_SOUND, powerRelayOn, alarmRelayOff,
       audioPlay MAVLINK_GOOD_SOUND, audioPlay READY_SOUND])"
  by (simp add: wrong_way_twice_eq handler_defs example_defs)

text \<open>
  C7, amended: the wrong-direction sound is played only by a tick that starts in AUTO mode
  with the latch clear and the count at exactly 2; such a tick plays it once and leaves
  the count at 3. Along any sequence of events that never lets the stored count decrease
  (no reset to 0 by progress or a mode change, no wrap-around of the counter) the sound is
  played at most once, and not at all when the count is above 2 at the start. From the
  unknown distance the readings 50, 60, 70 take the count to 0, 1, 2, and two ticks after
  them play the sound exactly once. An event leaves the count as it is, adds one to it or
  sets it to 0.
\<close>

theorem wrong_direction_sound_at_most_once:
  "(isAutoMode s \<and> \<not> isFailed s \<and> wrongDirectionCount s = 2 \<longrightarrow>
      count_list (snd (tick now s)) (audioPlay WRONG_DIRECTION_SOUND) = 1 \<and>
      wrongDirectionCount (fst (tick now s)) = 3) \<and>
   (audioPlay WRONG_DIRECTION_SOUND \<in> set (snd (step ib (now, e) s)) \<longrightarrow>
      e = Tick \<and> wrongDirectionCount s = 2 \<and> isAutoMode s \<and> \<not> isFailed s) \<and>
   (countNeverDrops ib es s \<longrightarrow>
      count_list (snd (run ib es s)) (audioPlay WRONG_DIRECTION_SOUND) \<le> 1) \<and>
   (unat (2 :: 'w::len word) < unat (wrongDirectionCount s) \<and> countNeverDrops ib es s \<longrightarrow>
      count_list (snd (run ib es (s :: 'w word MissionMonitor)))
        (audioPlay WRONG_DIRECTION_SOUND) = 0) \<and>
   (lastDistanceToWaypoint s = - 1 \<longrightarrow>
      wrongDirectionCount (fst (run ib [(t1, NavControllerOutput 50)] s)) = 0 \<and>
      wrongDirectionCount (fst (run ib [(t1, NavControllerOutput 50),
        (t2, NavControllerOutput 60)] s)) = 1 \<and>
      wrongDirectionCount (fst (run ib [(t1, NavControllerOutput 50),
        (t2, NavControllerOutput 60), (t3, NavControllerOutput 70)] s)) = 2) \<and>
   (lastDistanceToWaypoint s = - 1 \<and> isAutoMode s \<and> \<not> isFailed s \<longrightarrow>
      count_list (snd (run ib [(t1, NavControllerOutput 50), (t2, NavControllerOutput 60),
        (t3, NavControllerOutput 70), (t4, Tick), (t5, Tick)] s))
        (audioPlay WRONG_DIRECTION_SOUND) = 1) \<and>
   (wrongDirectionCount (fst (step ib (now, e) s)) = wrongDirectionCount s \<or>
    wrongDirectionCount (fst (step ib (now, e) s)) = wrongDirectionCount s + 1 \<or>
    wrongDirectionCount (fst (step ib (now, e) s)) = 0)"
  using tick_wrong_direction [of s now] step_wrong_direction_only [of ib now e s]
    run_sound_at_most_once [of ib es s] run_silent_above_two [of s ib es]
    readings_50_60_70(1-3) [of s] two_ticks_after_readings [of s ib t1 t2 t3 t4 t5]
    step_wrongDirectionCount [of ib now e s]
  by blast

text \<open>
  After the readings 50, 60, 70 in AUTO mode, over the readings and two ticks, and over
  further growth after the sound.
\<close>

theorem wrong_direction_sound_at_most_once_witness:
  "isAutoMode wrong_way_twice \<and> \<not> isFailed wrong_way_twice \<and>
   wrongDirectionCount wrong_way_twice = 2 \<and>
   audioPlay WRONG_DIRECTION_SOUND \<in> set (snd (step 32 (4, Tick) wrong_way_twice)) \<and>
   lastDistanceToWaypoint auto_linked = - 1 \<and> isAutoMode auto_linked \<and>
   \<not> isFailed auto_linked \<and>
   countNeverDrops 32 readings_then_ticks auto_linked \<and>
   unat (2 :: 8 word) < unat (wrongDirectionCount after_sound) \<and>
   countNeverDrops 32 growth_then_tick after_sound \<and>
   count_list (snd (tick 4 wrong_way_twice)) (audioPlay WRONG_DIRECTION_SOUND) = 1 \<and>
   wrongDirectionCount (fst (tick 4 wrong_way_twice)) = 3 \<and>
   wrongDirectionCount (fst (run 32 [(1, NavControllerOutput 50),
        (2, NavControllerOutput 60), (3, NavControllerOutput 70)] auto_linked)) = 2 \<and>
   count_list (snd (run 32 [(1, NavControllerOutput 50), (2, NavControllerOutput 60),
        (3, NavControllerOutput 70), (4, Tick), (5, Tick)] auto_linked))
        (audioPlay WRONG_DIRECTION_SOUND) = 1 \<and>
   count_list (snd (run 32 readings_then_ticks auto_linked))
        (audioPlay WRONG_DIRECTION_SOUND) \<le> 1 \<and>
   count_list (snd (run 32 growth_then_tick after_sound))
        (audioPlay WRONG_DIRECTION_SOUND) = 0"
proof -
  have a: "isAutoMode wrong_way_twice \<and> \<not> isFailed wrong_way_twice \<and>
     wrongDirectionCount wrong_way_twice = 2"
    by (simp add: wrong_way_twice_eq isAutoMode_def ROVER_MODE_defs)
  have b: "audioPlay WRONG_DIRECTION_SOUND \<in> set (snd (step 32 (4, Tick) wrong_way_twice))"
    by (simp add: wrong_way_twice_eq handler_defs ROVER_MODE_defs)
  have c: "lastDistanceToWaypoint auto_linked = - 1 \<and> isAutoMode auto_linked \<and>
     \<not> isFailed auto_linked"
    by (simp add: auto_linked_eq isAutoMode_def ROVER_MODE_defs)
  have d: "countNeverDrops 32 readings_then_ticks auto_linked"
    by (simp add: readings_then_ticks_def auto_linked_eq handler_defs ROVER_MODE_defs)
  have e: "unat (2 :: 8 word) < unat (wrongDirectionCount after_sound)"
    by (simp add: after_sound_eq wrong_way_twice_eq)
  have f: "countNeverDrops 32 growth_then_tick after_sound"
    by (simp add: growth_then_tick_def after_sound_eq wrong_way_twice_eq handler_defs
        ROVER_MODE_defs)
  from a wrong_direction_sound_at_most_once [where s = wrong_way_twice and now = 4]
  have a': "count_list (snd (tick 4 wrong_way_twice)) (audioPlay WRONG_DIRECTION_SOUND) = 1 \<and>
     wrongDirectionCount (fst (tick 4 wrong_way_twice)) = 3"
    by simp
  from c wrong_direction_sound_at_most_once [where s = auto_linked and ib = 32
      and ?t1.0 = 1 and ?t2.0 = 2 and ?t3.0 = 3 and ?t4.0 = 4 and ?t5.0 = 5]
  have c': "wrongDirectionCount (fst (run 32 [(1, NavControllerOutput 50),
        (2, NavControllerOutput 60), (3, NavControllerOutput 70)] auto_linked)) = 2 \<and>
     count_list (snd (run 32 [(1, NavControllerOutput 50), (2, NavControllerOutput 60),
        (3, NavControllerOutput 70), (4, Tick), (5, Tick)] auto_linked))
        (audioPlay WRONG_DIRECTION_SOUND) = 1"
    by (simp del: run.simps)
  from d wrong_direction_sound_at_most_once [where s = auto_linked and ib = 32
      and es = readings_then_ticks]
  have d': "count_list (snd (run 32 readings_then_ticks auto_linked))
        (audioPlay WRONG_DIRECTION_SOUND) \<le> 1"
    by (simp del: run.simps)
  from e f wrong_direction_sound_at_most_once [where s = after_sound and ib = 32
      and es = growth_then_tick]
  have f': "count_list (snd (run 32 growth_then_tick after_sound))
        (audioPlay WRONG_DIRECTION_SOUND) = 0"
    by (simp del: run.simps)
  from a b c d e f a' c' d' f' show ?thesis by (simp del: run.simps)
qed

subsection \<open>C8: the link-acquired sound\<close>




subsection \<open>C4: the two sentinels of the progress time\<close>

text \<open>
  C4, as stated, fails: at construction the progress time is the all-ones word, which is
  not 0 and was stored by no event; and a waypoint reached at clock reading 0 stores 0
  without any mode change.
\<close>

theorem lastProgress_initial_and_zero_clock:
  "lastProgressMadeTimeMilliseconds (fst (run 32 [] monitor0)) = 4294967295 \<and>
   lastProgressMadeTimeMilliseconds (fst (run 32 [(0, MissionItemReached 1)] monitor0)) = 0"
  by (simp add: handler_defs example_defs)

text \<open>
  C4, amended: while the progress time is 0 the stalled condition is false at every clock
  reading, and a tick that starts with the latch clear and the link alive leaves the latch
  clear. The reset routine sets the progress time to 0, and so does every mode-change
  heartbeat. Every other event that changes the progress time is a waypoint-reached,
  distance or waypoint-change event and stores its clock reading. The value at
  construction is the all-ones word.
\<close>

theorem lastProgress_sentinels:
  "(lastProgressMadeTimeMilliseconds s = 0 \<longrightarrow> \<not> noProgress now s) \<and>
   (lastProgressMadeTimeMilliseconds s = 0 \<and> \<not> mavlinkLost now s \<and> \<not> isFailed s \<longrightarrow>
      \<not> isFailed (fst (tick now s))) \<and>
   lastProgressMadeTimeMilliseconds (fst (start s)) = 0 \<and>
   (isModeChange (roverMode s) e \<longrightarrow>
      lastProgressMadeTimeMilliseconds (fst (step ib (now, e) s)) = 0) \<and>
   (\<not> isModeChange (roverMode s) e \<and>
    lastProgressMadeTimeMilliseconds (fst (step ib (now, e) s)) \<noteq>
      lastProgressMadeTimeMilliseconds s \<longrightarrow>
      armsProgress e \<and> lastProgressMadeTimeMilliseconds (fst (step ib (now, e) s)) = now) \<and>
   lastProgressMadeTimeMilliseconds
     (MissionMonitor_init secs lowest hb0 :: 'w::len word MissionMonitor) = - 1"
proof -
  have a: "lastProgressMadeTimeMilliseconds s = 0 \<longrightarrow> \<not> noProgress now s"
    by (simp add: noProgress_disarmed)
  have b: "lastProgressMadeTimeMilliseconds s = 0 \<and> \<not> mavlinkLost now s \<and> \<not> isFailed s \<longrightarrow>
      \<not> isFailed (fst (tick now s))"
    by (simp add: tick_fst evaluateMission_disarmed)
  have c: "lastProgressMadeTimeMilliseconds (fst (start s)) = 0"
    by (simp add: start_def)
  have d: "isModeChange (roverMode s) e \<longrightarrow>
      lastProgressMadeTimeMilliseconds (fst (step ib (now, e) s)) = 0"
    by (simp add: step_mode_change_disarms)
  have e: "\<not> isModeChange (roverMode s) e \<and>
    lastProgressMadeTimeMilliseconds (fst (step ib (now, e) s)) \<noteq>
      lastProgressMadeTimeMilliseconds s \<longrightarrow>
      armsProgress e \<and> lastProgressMadeTimeMilliseconds (fst (step ib (now, e) s)) = now"
    using step_arms [of s e ib now] by blast
  have f: "lastProgressMadeTimeMilliseconds
     (MissionMonitor_init secs lowest hb0 :: 'w word MissionMonitor) = - 1"
    by (simp add: MissionMonitor_init_def)
  from a b c d e f show ?thesis by (intro conjI)
qed

text \<open>In AUTO mode right after the mode change: disarmed, reset again, armed by a waypoint.\<close>

theorem lastProgress_sentinels_witness:
  "lastProgressMadeTimeMilliseconds auto_linked = 0 \<and> \<not> mavlinkLost 500 auto_linked \<and>
   \<not> isFailed auto_linked \<and>
   isModeChange (roverMode auto_linked) (Heatbeat (rover_heartbeat ROVER_MODE_HOLD)) \<and>
   \<not> isModeChange (roverMode auto_linked) (MissionItemReached 1) \<and>
   lastProgressMadeTimeMilliseconds (fst (step 32 (500, MissionItemReached 1) auto_linked)) \<noteq>
     lastProgressMadeTimeMilliseconds auto_linked \<and>
   \<not> noProgress 500 auto_linked \<and> \<not> isFailed (fst (tick 500 auto_linked)) \<and>
   lastProgressMadeTimeMilliseconds
     (fst (step 32 (500, Heatbeat (rover_heartbeat ROVER_MODE_HOLD)) auto_linked)) = 0 \<and>
   lastProgressMadeTimeMilliseconds (fst (step 32 (500, MissionItemReached 1) auto_linked)) = 500"
proof -
  have a: "lastProgressMadeTimeMilliseconds auto_linked = 0 \<and> \<not> mavlinkLost 500 auto_linked \<and>
     \<not> isFailed auto_linked"
    by (simp add: auto_linked_eq mavlinkLost_def)
  have b: "isModeChange (roverMode auto_linked) (Heatbeat (rover_heartbeat ROVER_MODE_HOLD))"
    by (simp add: auto_linked_eq example_defs)
  have c: "\<not> isModeChange (roverMode auto_linked) (MissionItemReached 1) \<and>
     lastProgressMadeTimeMilliseconds (fst (step 32 (500, MissionItemReached 1) auto_linked)) \<noteq>
       lastProgressMadeTimeMilliseconds auto_linked"
    by (simp add: auto_linked_eq onMissionItemReached_def)
  from a b lastProgress_sentinels [of auto_linked 500
      "Heatbeat (rover_heartbeat ROVER_MODE_HOLD)" 32 1 3 0, where ?'w = 8]
  have a': "\<not> noProgress 500 auto_linked \<and> \<not> isFailed (fst (tick 500 auto_linked)) \<and>
     lastProgressMadeTimeMilliseconds
       (fst (step 32 (500, Heatbeat (rover_heartbeat ROVER_MODE_HOLD)) auto_linked)) = 0"
    by (simp del: step.simps)
  from c lastProgress_sentinels [of auto_linked 500 "MissionItemReached 1" 32 1 3 0,
      where ?'w = 8]
  have c': "lastProgressMadeTimeMilliseconds
      (fst (step 32 (500, MissionItemReached 1) auto_linked)) = 500"
    by (simp del: step.simps)
  from a b c a' c' show ?thesis by (simp del: step.simps)
qed

subsection \<open>C3: the distance readings\<close>

text \<open>
  C3 fails on the code where \<^verbatim>\<open>int\<close> is wider than 16 bits. The monitor has seen the
  distance grow from 50 to 60 and then a new waypoint, which stores the unknown distance
  65535 and leaves the wrong-direction flag set. The next reading is 65535. The test against
  -1 is false, the reading equals the stored distance and the flag is set, so no progress
  is recorded: the progress time stays 3, the flag stays set and the count stays 1. With a
  16-bit \<^verbatim>\<open>int\<close> the same reading is the first of the new leg and makes progress.
\<close>

theorem onNavControllerOutput_misses_unknown:
  "lastDistanceToWaypoint wrong_way_new_leg = - 1 \<and>
   wrongDirection wrong_way_new_leg \<and>
   lastProgressMadeTimeMilliseconds wrong_way_new_leg = 3 \<and>
   wrongDirectionCount wrong_way_new_leg = 1 \<and>
   lastProgressMadeTimeMilliseconds
     (fst (onNavControllerOutput 32 4 65535 wrong_way_new_leg)) = 3 \<and>
   wrongDirection (fst (onNavControllerOutput 32 4 65535 wrong_way_new_leg)) \<and>
   wrongDirectionCount (fst (onNavControllerOutput 32 4 65535 wrong_way_new_leg)) = 1 \<and>
   lastProgressMadeTimeMilliseconds
     (fst (onNavControllerOutput 16 4 65535 wrong_way_new_leg)) = 4 \<and>
   \<not> wrongDirection (fst (onNavControllerOutput 16 4 65535 wrong_way_new_leg)) \<and>
   wrongDirectionCount (fst (onNavControllerOutput 16 4 65535 wrong_way_new_leg)) = 0"
  by (simp add: wrong_way_new_leg_eq onNavControllerOutput_def equals_minus_one_def)

end
